theory Spec2Isabelle
  imports Main "HOL-Library.AList"
begin

section \<open>JavaScript values\<close>

text \<open>
  The numbers this program handles are route ids and page numbers: integers, or the
  \<open>NaN\<close> that \<open>parseInt\<close> yields for a string without digits. \<open>Num 0\<close> stands for both
  zeros of the runtime (both are falsy and both print as \<open>0\<close>).
\<close>

datatype jsnum = NaN | Num int

datatype jsval =
    JUndefined
  | JNull
  | JBool bool
  | JNumber jsnum
  | JString string
  | JArray "jsval list"
  | JObject "(string \<times> jsval) list"

text \<open>\<open>ToBoolean\<close>: what \<open>if (v)\<close>, \<open>!!v\<close> and \<open>v || w\<close> test.\<close>

fun truthy_num :: "jsnum \<Rightarrow> bool" where
  "truthy_num NaN = False"
| "truthy_num (Num i) = (i \<noteq> 0)"

fun truthy :: "jsval \<Rightarrow> bool" where
  "truthy JUndefined = False"
| "truthy JNull = False"
| "truthy (JBool b) = b"
| "truthy (JNumber n) = truthy_num n"
| "truthy (JString s) = (s \<noteq> [])"
| "truthy (JArray xs) = True"
| "truthy (JObject kvs) = True"

definition js_or :: "jsval \<Rightarrow> jsval \<Rightarrow> jsval" where
  "js_or a b = (if truthy a then a else b)"

fun nullish :: "jsval \<Rightarrow> bool" where
  "nullish JUndefined = True"
| "nullish JNull = True"
| "nullish v = False"

text \<open>
  Reading one of the property names this program reads (\<open>data\<close>, \<open>error\<close>, \<open>results\<close>),
  none of which a built-in prototype defines: an object gives the stored value, every
  other non-nullish value gives \<open>undefined\<close>.
\<close>

fun get_prop :: "jsval \<Rightarrow> string \<Rightarrow> jsval" where
  "get_prop (JObject kvs) k = (case map_of kvs k of Some v \<Rightarrow> v | None \<Rightarrow> JUndefined)"
| "get_prop v k = JUndefined"

text \<open>\<open>v?.k\<close>\<close>

definition opt_prop :: "jsval \<Rightarrow> string \<Rightarrow> jsval" where
  "opt_prop v k = (if nullish v then JUndefined else get_prop v k)"

section \<open>Requests, responses, errors, effects\<close>

datatype http_method = GET | POST | DELETE

datatype content_type = movie | tv

text \<open>The item a caller passes to the add mutation; \<open>item_note\<close> is its \<open>note\<close>.\<close>

record watchlist_item =
  tmdbId :: jsnum
  contentType :: content_type
  title :: string
  posterPath :: "string option"
  item_note :: "string option"

text \<open>The request configuration; \<open>payload\<close> is the \<open>data\<close> of the configuration.\<close>

record request_config =
  baseURL :: string
  timeout :: nat
  "method" :: http_method
  url :: string
  headers :: "(string \<times> string) list"
  payload :: "watchlist_item option"

record http_response =
  status :: nat
  data :: jsval

text \<open>
  The error the HTTP layer rejects with: \<open>response\<close> when the server answered with an
  error status, \<open>request\<close> when the request was made.
\<close>

record axios_error =
  response :: "http_response option"
  request :: bool
  message :: string

text \<open>
  What a promise of this program rejects with: the HTTP layer's error, or the
  \<open>TypeError\<close> (with its message) of reading a property of \<open>null\<close> or \<open>undefined\<close>.
\<close>

datatype js_error = AxiosErr axios_error | TypeError string

text \<open>\<open>error.response\<close>, \<open>error.request\<close> (as a truth value) and \<open>error.message\<close>.\<close>

fun err_response :: "js_error \<Rightarrow> http_response option" where
  "err_response (AxiosErr e) = response e"
| "err_response (TypeError m) = None"

fun err_request :: "js_error \<Rightarrow> bool" where
  "err_request (AxiosErr e) = request e"
| "err_request (TypeError m) = False"

fun err_message :: "js_error \<Rightarrow> string" where
  "err_message (AxiosErr e) = message e"
| "err_message (TypeError m) = m"

datatype 'a promise = Fulfilled 'a | Rejected js_error

datatype log_arg = LStr string | LVal jsval | LTemplate string jsval

datatype effect =
    EConsole "log_arg list"
  | ERequest request_config
  | EResponse "axios_error + http_response"
  | EInvalidate "jsval list"
  | EToastSuccess string
  | EToastError jsval

text \<open>The backend seen through the HTTP layer: every request sent settles.\<close>

type_synonym backend = "request_config \<Rightarrow> axios_error + http_response"

section \<open>The API client\<close>

text \<open>
  A registered token getter, as the outcome of awaiting one call of it: the value it
  throws or rejects with, or the token (\<open>None\<close> is \<open>null\<close>).
\<close>

type_synonym token_getter = "jsval + string option"

record query_state =
  qdata :: jsval
  isInvalidated :: bool
  fresh :: bool

record client =
  VITE_API_URL :: "string option"
  getTokenFunction :: "token_getter option"
  queries :: "(jsval list \<times> query_state) list"

definition setTokenGetter :: "token_getter \<Rightarrow> client \<Rightarrow> client" where
  "setTokenGetter fn st = st\<lparr>getTokenFunction := Some fn\<rparr>"

definition api_defaults :: "client \<Rightarrow> http_method \<Rightarrow> string \<Rightarrow> watchlist_item option \<Rightarrow> request_config" where
  "api_defaults st m u d =
     \<lparr>baseURL = (case VITE_API_URL st of
                   None \<Rightarrow> ''http://localhost:3000/api''
                 | Some v \<Rightarrow> if v \<noteq> [] then v else ''http://localhost:3000/api''),
      timeout = 30000,
      method = m,
      url = u,
      headers = [(''Content-Type'', ''application/json'')],
      payload = d\<rparr>"

text \<open>The request interceptor: the log lines it writes and the promise it returns.\<close>

definition request_interceptor ::
  "token_getter option \<Rightarrow> request_config \<Rightarrow> log_arg list list \<times> request_config promise" where
  "request_interceptor g config =
     (case g of
        None \<Rightarrow> ([], Fulfilled config)
      | Some (Inr None) \<Rightarrow> ([], Fulfilled config)
      | Some (Inr (Some token)) \<Rightarrow>
          if token \<noteq> []
          then ([], Fulfilled (config\<lparr>headers :=
                  AList.update ''Authorization'' (''Bearer '' @ token) (headers config)\<rparr>))
          else ([], Fulfilled config)
      | Some (Inl error) \<Rightarrow>
          ([[LStr ''Failed to get auth token:'', LVal error]], Fulfilled config))"

text \<open>Its second handler, for a rejection that reaches the interceptor.\<close>

definition request_interceptor_rejected :: "js_error \<Rightarrow> request_config promise" where
  "request_interceptor_rejected error = Rejected error"

text \<open>The status codes the response interceptor names.\<close>

definition UNAUTHORIZED :: nat where "UNAUTHORIZED = 401"
definition FORBIDDEN :: nat where "FORBIDDEN = 403"
definition NOT_FOUND :: nat where "NOT_FOUND = 404"
definition CONFLICT :: nat where "CONFLICT = 409"
definition INTERNAL_SERVER_ERROR :: nat where "INTERNAL_SERVER_ERROR = 500"

text \<open>The response interceptor's two handlers.\<close>

definition response_fulfilled :: "http_response \<Rightarrow> http_response promise" where
  "response_fulfilled r = Fulfilled r"

definition response_rejected :: "js_error \<Rightarrow> log_arg list list \<times> http_response promise" where
  "response_rejected error =
     ((case err_response error of
         Some r \<Rightarrow>
           if status r = UNAUTHORIZED then [[LStr ''Unauthorized. Please log in again.'']]
           else if status r = FORBIDDEN then [[LStr ''Forbidden. You don't have permission.'']]
           else if status r = NOT_FOUND then [[LStr ''Resource not found.'']]
           else if status r = CONFLICT then [[LStr ''Too many requests. Please slow down.'']]
           else if status r = INTERNAL_SERVER_ERROR
             then [[LStr ''Server error. Please try again later.'']]
           else [[LTemplate ''Error: ''
                   (js_or (opt_prop (data r) ''error'') (JString ''Something went wrong''))]]
       | None \<Rightarrow>
           if err_request error
           then [[LStr ''No response from server. Check your connection.'']]
           else [[LStr ''Request error:'', LVal (JString (err_message error))]]),
      Rejected error)"

text \<open>
  One call through the client, in the order of the HTTP library's handler chain: the
  request interceptor, the exchange with the backend, the response interceptor. A
  rejection of the request interceptor skips the exchange and reaches the response
  interceptor's rejection handler.
\<close>

definition api_request ::
  "client \<Rightarrow> backend \<Rightarrow> request_config \<Rightarrow> effect list \<times> http_response promise" where
  "api_request st be config0 =
     (case request_interceptor (getTokenFunction st) config0 of
        (logs, Rejected e) \<Rightarrow>
          (case response_rejected e of
             (logs', p) \<Rightarrow> (map EConsole logs @ map EConsole logs', p))
      | (logs, Fulfilled config) \<Rightarrow>
          (case be config of
             Inr r \<Rightarrow>
               (map EConsole logs @ [ERequest config, EResponse (Inr r)], response_fulfilled r)
           | Inl err \<Rightarrow>
               (case response_rejected (AxiosErr err) of
                  (logs', p) \<Rightarrow>
                    (map EConsole logs @ [ERequest config, EResponse (Inl err)] @ map EConsole logs',
                     p))))"

definition api_get :: "client \<Rightarrow> backend \<Rightarrow> string \<Rightarrow> effect list \<times> http_response promise" where
  "api_get st be u = api_request st be (api_defaults st GET u None)"

definition api_post ::
  "client \<Rightarrow> backend \<Rightarrow> string \<Rightarrow> watchlist_item \<Rightarrow> effect list \<times> http_response promise" where
  "api_post st be u d = api_request st be (api_defaults st POST u (Some d))"

definition api_delete :: "client \<Rightarrow> backend \<Rightarrow> string \<Rightarrow> effect list \<times> http_response promise" where
  "api_delete st be u = api_request st be (api_defaults st DELETE u None)"

text \<open>The requests that reach the network in a run, in order.\<close>

fun http_requests :: "effect list \<Rightarrow> request_config list" where
  "http_requests [] = []"
| "http_requests (ERequest c # es) = c # http_requests es"
| "http_requests (e # es) = http_requests es"

section \<open>Numbers and strings of the runtime\<close>

text \<open>
  A string is its sequence of code units, here the ones below 256. \<open>Number_toString\<close> is
  what a template literal makes of a number (an integer below \<open>10 ^ 21\<close> in absolute
  value is printed in full, as here).
\<close>

fun digits :: "nat \<Rightarrow> string" where
  "digits n =
     (if n < 10 then [''0123456789'' ! n]
      else digits (n div 10) @ [''0123456789'' ! (n mod 10)])"

fun Number_toString :: "jsnum \<Rightarrow> string" where
  "Number_toString NaN = ''NaN''"
| "Number_toString (Num i) = (if i < 0 then ''-'' @ digits (nat (- i)) else digits (nat i))"

text \<open>
  \<open>parseInt(s, 10)\<close>: leading white space is skipped, one sign is read, then the longest
  run of decimal digits; no digit gives \<open>NaN\<close>. The value is kept exact (the runtime
  rounds beyond \<open>2 ^ 53\<close>, which changes neither its sign nor whether it is zero).
\<close>

definition StrWhiteSpaceChar :: "char \<Rightarrow> bool" where
  "StrWhiteSpaceChar c = ((of_char c :: nat) \<in> {9, 10, 11, 12, 13, 32, 160})"

definition is_digit :: "char \<Rightarrow> bool" where
  "is_digit c = (48 \<le> (of_char c :: nat) \<and> (of_char c :: nat) \<le> 57)"

fun digits_value :: "int \<Rightarrow> string \<Rightarrow> int" where
  "digits_value acc [] = acc"
| "digits_value acc (c # cs) = digits_value (acc * 10 + (int (of_char c) - 48)) cs"

definition parseInt :: "string \<Rightarrow> jsnum" where
  "parseInt s =
     (let S = dropWhile StrWhiteSpaceChar s;
          sign = (case S of c # r \<Rightarrow> if c = CHR ''-'' then - 1 else 1 | [] \<Rightarrow> 1);
          S' = (case S of c # r \<Rightarrow> if c = CHR ''-'' \<or> c = CHR ''+'' then r else S | [] \<Rightarrow> S);
          Z = takeWhile is_digit S'
      in if Z = [] then NaN else Num (sign * digits_value 0 Z))"

text \<open>Percent-encoding of one byte, and the UTF-8 bytes of a code unit below 256.\<close>

definition pct :: "nat \<Rightarrow> string" where
  "pct b = [CHR ''%'', ''0123456789ABCDEF'' ! (b div 16), ''0123456789ABCDEF'' ! (b mod 16)]"

definition utf8_pct :: "char \<Rightarrow> string" where
  "utf8_pct c =
     (let n = (of_char c :: nat)
      in if n < 128 then pct n else pct (192 + n div 64) @ pct (128 + n mod 64))"

definition alnum :: "char \<Rightarrow> bool" where
  "alnum c = (c \<in> set ''ABCDEFGHIJKLMNOPQRSTUVWXYZabcdefghijklmnopqrstuvwxyz0123456789'')"

definition encodeURIComponent :: "string \<Rightarrow> string" where
  "encodeURIComponent s =
     concat (map (\<lambda>c. if alnum c \<or> c \<in> set ''-_.!~*()'' \<or> c = CHR 0x27 then [c]
                       else utf8_pct c) s)"

text \<open>\<open>URLSearchParams\<close>: \<open>append\<close> adds a pair at the end, \<open>toString\<close> serialises the pairs.\<close>

definition form_encode :: "string \<Rightarrow> string" where
  "form_encode s =
     concat (map (\<lambda>c. if alnum c \<or> c \<in> set ''*-._'' then [c]
                       else if c = CHR '' '' then ''+''
                       else utf8_pct c) s)"

fun URLSearchParams_toString :: "(string \<times> string) list \<Rightarrow> string" where
  "URLSearchParams_toString [] = []"
| "URLSearchParams_toString [(k, v)] = form_encode k @ ''='' @ form_encode v"
| "URLSearchParams_toString ((k, v) # ps) =
     form_encode k @ ''='' @ form_encode v @ ''&'' @ URLSearchParams_toString ps"

section \<open>The query hooks\<close>

text \<open>
  What a hook hands to the data-fetching library: the key, the query function (run
  against the client state and the backend), whether the query is enabled, and the
  time in milliseconds its data counts as fresh.
\<close>

record query_options =
  queryKey :: "jsval list"
  queryFn :: "client \<Rightarrow> backend \<Rightarrow> effect list \<times> jsval promise"
  enabled :: bool
  staleTime :: nat

text \<open>\<open>v.k\<close> in an async function: a \<open>TypeError\<close> rejection when \<open>v\<close> is nullish.\<close>

definition member :: "jsval \<Rightarrow> string \<Rightarrow> jsval promise" where
  "member v k =
     (case v of
        JUndefined \<Rightarrow> Rejected (TypeError (''Cannot read properties of undefined (reading '' @ [CHR 0x27] @ k @ [CHR 0x27] @ '')''))
      | JNull \<Rightarrow> Rejected (TypeError (''Cannot read properties of null (reading '' @ [CHR 0x27] @ k @ [CHR 0x27] @ '')''))
      | _ \<Rightarrow> Fulfilled (get_prop v k))"

text \<open>
  The body every query function but the watchlist status shares:
  \<open>const { data } = await api.get(u); return data.data;\<close>
\<close>

definition get_data_data :: "string \<Rightarrow> client \<Rightarrow> backend \<Rightarrow> effect list \<times> jsval promise" where
  "get_data_data u st be =
     (case api_get st be u of
        (es, Rejected e) \<Rightarrow> (es, Rejected e)
      | (es, Fulfilled r) \<Rightarrow> (es, member (data r) ''data''))"

text \<open>\<open>const { data } = await api.get(u); return data;\<close>\<close>

definition get_data :: "string \<Rightarrow> client \<Rightarrow> backend \<Rightarrow> effect list \<times> jsval promise" where
  "get_data u st be =
     (case api_get st be u of
        (es, Rejected e) \<Rightarrow> (es, Rejected e)
      | (es, Fulfilled r) \<Rightarrow> (es, Fulfilled (data r)))"

datatype time_window = day | week

fun time_window_str :: "time_window \<Rightarrow> string" where
  "time_window_str day = ''day''"
| "time_window_str week = ''week''"

definition useTrendingMovies :: "time_window \<Rightarrow> query_options" where
  "useTrendingMovies timeWindow =
     \<lparr>queryKey = [JString ''movies'', JString ''trending'', JString (time_window_str timeWindow)],
      queryFn = get_data_data (''/movies/trending?timeWindow='' @ time_window_str timeWindow),
      enabled = True,
      staleTime = 1000 * 60 * 5\<rparr>"

definition usePopularMovies :: "jsnum \<Rightarrow> query_options" where
  "usePopularMovies pg =
     \<lparr>queryKey = [JString ''movies'', JString ''popular'', JNumber pg],
      queryFn = get_data_data (''/movies/popular?page='' @ Number_toString pg),
      enabled = True,
      staleTime = 1000 * 60 * 10\<rparr>"

definition useTopRatedMovies :: "jsnum \<Rightarrow> query_options" where
  "useTopRatedMovies pg =
     \<lparr>queryKey = [JString ''movies'', JString ''top-rated'', JNumber pg],
      queryFn = get_data_data (''/movies/top-rated?page='' @ Number_toString pg),
      enabled = True,
      staleTime = 1000 * 60 * 10\<rparr>"

definition useNowPlayingMovies :: "jsnum \<Rightarrow> query_options" where
  "useNowPlayingMovies pg =
     \<lparr>queryKey = [JString ''movies'', JString ''now-playing'', JNumber pg],
      queryFn = get_data_data (''/movies/now-playing?page='' @ Number_toString pg),
      enabled = True,
      staleTime = 1000 * 60 * 3\<rparr>"

definition useUpcomingMovies :: "jsnum \<Rightarrow> query_options" where
  "useUpcomingMovies pg =
     \<lparr>queryKey = [JString ''movies'', JString ''upcoming'', JNumber pg],
      queryFn = get_data_data (''/movies/upcoming?page='' @ Number_toString pg),
      enabled = True,
      staleTime = 1000 * 60 * 10\<rparr>"

definition useMovieDetails :: "jsnum \<Rightarrow> query_options" where
  "useMovieDetails movieId =
     \<lparr>queryKey = [JString ''movie'', JNumber movieId],
      queryFn = get_data_data (''/movies/'' @ Number_toString movieId),
      enabled = truthy_num movieId,
      staleTime = 1000 * 60 * 30\<rparr>"

definition useMovieCredits :: "jsnum \<Rightarrow> query_options" where
  "useMovieCredits movieId =
     \<lparr>queryKey = [JString ''movie'', JNumber movieId, JString ''credits''],
      queryFn = get_data_data (''/movies/'' @ Number_toString movieId @ ''/credits''),
      enabled = truthy_num movieId,
      staleTime = 1000 * 60 * 30\<rparr>"

definition useMovieVideos :: "jsnum \<Rightarrow> query_options" where
  "useMovieVideos movieId =
     \<lparr>queryKey = [JString ''movie'', JNumber movieId, JString ''videos''],
      queryFn = get_data_data (''/movies/'' @ Number_toString movieId @ ''/videos''),
      enabled = truthy_num movieId,
      staleTime = 1000 * 60 * 30\<rparr>"

definition useSimilarMovies :: "jsnum \<Rightarrow> jsnum \<Rightarrow> query_options" where
  "useSimilarMovies movieId pg =
     \<lparr>queryKey = [JString ''movie'', JNumber movieId, JString ''similar'', JNumber pg],
      queryFn = get_data_data
        (''/movies/'' @ Number_toString movieId @ ''/similar?page='' @ Number_toString pg),
      enabled = truthy_num movieId,
      staleTime = 1000 * 60 * 10\<rparr>"

definition useMovieRecommendations :: "jsnum \<Rightarrow> jsnum \<Rightarrow> query_options" where
  "useMovieRecommendations movieId pg =
     \<lparr>queryKey = [JString ''movie'', JNumber movieId, JString ''recommendations'', JNumber pg],
      queryFn = get_data_data
        (''/movies/'' @ Number_toString movieId @ ''/recommendations?page='' @ Number_toString pg),
      enabled = truthy_num movieId,
      staleTime = 1000 * 60 * 10\<rparr>"

definition useSearchMovies :: "string \<Rightarrow> jsnum \<Rightarrow> query_options" where
  "useSearchMovies query pg =
     \<lparr>queryKey = [JString ''movies'', JString ''search'', JString query, JNumber pg],
      queryFn = get_data_data
        (''/movies/search?query='' @ encodeURIComponent query @ ''&page='' @ Number_toString pg),
      enabled = (length query > 0),
      staleTime = 1000 * 60 * 5\<rparr>"

record discover_filters =
  with_genres :: "string option"
  year :: "jsnum option"
  sort_by :: "string option"
  page :: "jsnum option"

text \<open>The filters as a key element: the fields that are set.\<close>

definition filters_value :: "discover_filters \<Rightarrow> jsval" where
  "filters_value filters =
     JObject
       ((case with_genres filters of Some g \<Rightarrow> [(''with_genres'', JString g)] | None \<Rightarrow> []) @
        (case year filters of Some y \<Rightarrow> [(''year'', JNumber y)] | None \<Rightarrow> []) @
        (case sort_by filters of Some b \<Rightarrow> [(''sort_by'', JString b)] | None \<Rightarrow> []) @
        (case page filters of Some n \<Rightarrow> [(''page'', JNumber n)] | None \<Rightarrow> []))"

definition discover_params :: "discover_filters \<Rightarrow> (string \<times> string) list" where
  "discover_params filters =
     (case with_genres filters of
        Some g \<Rightarrow> if g \<noteq> [] then [(''with_genres'', g)] else [] | None \<Rightarrow> []) @
     (case year filters of
        Some y \<Rightarrow> if truthy_num y then [(''year'', Number_toString y)] else [] | None \<Rightarrow> []) @
     (case sort_by filters of
        Some b \<Rightarrow> if b \<noteq> [] then [(''sort_by'', b)] else [] | None \<Rightarrow> []) @
     (case page filters of
        Some n \<Rightarrow> if truthy_num n then [(''page'', Number_toString n)] else [] | None \<Rightarrow> [])"

definition useDiscoverMovies :: "discover_filters \<Rightarrow> query_options" where
  "useDiscoverMovies filters =
     \<lparr>queryKey = [JString ''movies'', JString ''discover'', filters_value filters],
      queryFn = get_data_data
        (''/movies/discover?'' @ URLSearchParams_toString (discover_params filters)),
      enabled = True,
      staleTime = 1000 * 60 * 10\<rparr>"

definition useMovieGenres :: query_options where
  "useMovieGenres =
     \<lparr>queryKey = [JString ''movies'', JString ''genres''],
      queryFn = get_data_data ''/movies/genres'',
      enabled = True,
      staleTime = 1000 * 60 * 60 * 24\<rparr>"

definition useWatchlist :: query_options where
  "useWatchlist =
     \<lparr>queryKey = [JString ''watchlist''],
      queryFn = get_data_data ''/watchlist'',
      enabled = True,
      staleTime = 1000 * 60 * 2\<rparr>"

fun content_type_str :: "content_type \<Rightarrow> string" where
  "content_type_str movie = ''movie''"
| "content_type_str tv = ''tv''"

definition useWatchlistStatus :: "jsnum \<Rightarrow> content_type \<Rightarrow> query_options" where
  "useWatchlistStatus tmdb_id ctype =
     \<lparr>queryKey = [JString ''watchlist'', JString ''status'', JNumber tmdb_id,
                  JString (content_type_str ctype)],
      queryFn = get_data
        (''/watchlist/check?tmdbId='' @ Number_toString tmdb_id @
         ''&contentType='' @ content_type_str ctype),
      enabled = (truthy_num tmdb_id \<and> content_type_str ctype \<noteq> []),
      staleTime = 1000 * 60 * 2\<rparr>"

section \<open>The data-fetching library, as this program uses it\<close>

text \<open>
  The library that runs the queries and mutations is not part of this repository. What
  follows is its documented behaviour (version 5) on the options this program passes:
  \<^item> \<open>invalidateQueries\<close> marks every cached query whose key starts with the given key;
  \<^item> \<open>mutate\<close> runs the mutation function, then \<open>onSuccess\<close> when it fulfils and
    \<open>onError\<close> with the error when it rejects;
  \<^item> a mounted query that is disabled does not run its query function; an enabled one
    runs it when the cache has no entry for its key, or the entry is invalidated or
    no longer fresh, and runs it again \<open>retry\<close> times while it rejects;
  \<^item> \<open>isLoading\<close> holds while a first fetch is under way: the query fetches and the
    cache has no data for it.
\<close>

definition invalidateQueries :: "jsval list \<Rightarrow> client \<Rightarrow> client" where
  "invalidateQueries k st =
     st\<lparr>queries :=
          map (\<lambda>(key, q). if take (length k) key = k then (key, q\<lparr>isInvalidated := True\<rparr>)
                           else (key, q))
            (queries st)\<rparr>"

record 'v mutation_options =
  mutationFn :: "'v \<Rightarrow> client \<Rightarrow> backend \<Rightarrow> effect list \<times> jsval promise"
  onSuccess :: "client \<Rightarrow> effect list \<times> client"
  onError :: "js_error \<Rightarrow> effect list"

definition mutate ::
  "'v mutation_options \<Rightarrow> 'v \<Rightarrow> client \<Rightarrow> backend \<Rightarrow> effect list \<times> client" where
  "mutate opts vars st be =
     (case mutationFn opts vars st be of
        (es, Fulfilled d) \<Rightarrow> (case onSuccess opts st of (es', st') \<Rightarrow> (es @ es', st'))
      | (es, Rejected e) \<Rightarrow> (es @ onError opts e, st))"

text \<open>The client's default options for queries (the entry point sets \<open>retry: 1\<close>).\<close>

definition default_retry :: nat where
  "default_retry = 1"

fun run_queryFn ::
  "nat \<Rightarrow> (client \<Rightarrow> backend \<Rightarrow> effect list \<times> jsval promise) \<Rightarrow> client \<Rightarrow> backend
   \<Rightarrow> effect list \<times> jsval promise" where
  "run_queryFn 0 f st be = f st be"
| "run_queryFn (Suc n) f st be =
     (case f st be of
        (es, Fulfilled d) \<Rightarrow> (es, Fulfilled d)
      | (es, Rejected e) \<Rightarrow> (case run_queryFn n f st be of (es', p) \<Rightarrow> (es @ es', p)))"

definition cached_data :: "client \<Rightarrow> jsval list \<Rightarrow> jsval" where
  "cached_data st k = (case map_of (queries st) k of Some q \<Rightarrow> qdata q | None \<Rightarrow> JUndefined)"

definition needs_fetch :: "client \<Rightarrow> jsval list \<Rightarrow> bool" where
  "needs_fetch st k =
     (case map_of (queries st) k of Some q \<Rightarrow> isInvalidated q \<or> \<not> fresh q | None \<Rightarrow> True)"

text \<open>What a component sees of a query: \<open>data\<close> and \<open>isLoading\<close>.\<close>

type_synonym query_result = "jsval \<times> bool"

text \<open>The first render of a mounted query, before any fetch has settled.\<close>

definition useQuery_first :: "query_options \<Rightarrow> client \<Rightarrow> query_result" where
  "useQuery_first opts st =
     (cached_data st (queryKey opts),
      enabled opts \<and> needs_fetch st (queryKey opts)
        \<and> cached_data st (queryKey opts) = JUndefined)"

text \<open>The mounted query once its fetch, if any, has settled.\<close>

definition useQuery :: "query_options \<Rightarrow> client \<Rightarrow> backend \<Rightarrow> effect list \<times> client \<times> query_result" where
  "useQuery opts st be =
     (if enabled opts \<and> needs_fetch st (queryKey opts)
      then (case run_queryFn default_retry (queryFn opts) st be of
              (es, Fulfilled d) \<Rightarrow>
                (es,
                 st\<lparr>queries := AList.update (queryKey opts)
                       \<lparr>qdata = d, isInvalidated = False, fresh = True\<rparr> (queries st)\<rparr>,
                 (d, False))
            | (es, Rejected e) \<Rightarrow> (es, st, (cached_data st (queryKey opts), False)))
      else ([], st, (cached_data st (queryKey opts), False)))"

section \<open>The watchlist mutations\<close>

text \<open>\<open>error.response?.data?.error\<close>\<close>

definition response_error_field :: "js_error \<Rightarrow> jsval" where
  "response_error_field error =
     (case err_response error of None \<Rightarrow> JUndefined | Some r \<Rightarrow> opt_prop (data r) ''error'')"

definition useAddToWatchlist :: "watchlist_item mutation_options" where
  "useAddToWatchlist =
     \<lparr>mutationFn = (\<lambda>item st be.
        case api_post st be ''/watchlist'' item of
          (es, Rejected e) \<Rightarrow> (es, Rejected e)
        | (es, Fulfilled r) \<Rightarrow> (es, Fulfilled (data r))),
      onSuccess = (\<lambda>st.
        ([EInvalidate [JString ''watchlist''], EToastSuccess ''Added to watchlist!''],
         invalidateQueries [JString ''watchlist''] st)),
      onError = (\<lambda>error.
        [EToastError (js_or (response_error_field error) (JString ''Failed to add to watchlist''))])\<rparr>"

definition useRemoveFromWatchlist :: "string mutation_options" where
  "useRemoveFromWatchlist =
     \<lparr>mutationFn = (\<lambda>watchlistId st be.
        case api_delete st be (''/watchlist/'' @ watchlistId) of
          (es, Rejected e) \<Rightarrow> (es, Rejected e)
        | (es, Fulfilled r) \<Rightarrow> (es, Fulfilled (data r))),
      onSuccess = (\<lambda>st.
        ([EInvalidate [JString ''watchlist''], EToastSuccess ''Removed from watchlist''],
         invalidateQueries [JString ''watchlist''] st)),
      onError = (\<lambda>error.
        [EToastError
           (js_or (response_error_field error) (JString ''Failed to remove from watchlist''))])\<rparr>"

section \<open>The pages\<close>






datatype detail_view = Spinner | MovieNotFound | MovieDetail jsval

definition MovieDetailPage_render :: "query_result \<Rightarrow> detail_view" where
  "MovieDetailPage_render details =
     (if snd details then Spinner
      else if \<not> truthy (fst details) then MovieNotFound
      else MovieDetail (fst details))"

text \<open>The first render of the movie page for the route parameter \<open>id\<close> (here \<open>route_id\<close>).\<close>

definition MovieDetailPage_first :: "string \<Rightarrow> client \<Rightarrow> detail_view" where
  "MovieDetailPage_first route_id st =
     (let movieId = parseInt route_id
      in MovieDetailPage_render (useQuery_first (useMovieDetails movieId) st))"

text \<open>The movie page once its four queries have settled.\<close>

definition MovieDetailPage :: "string \<Rightarrow> client \<Rightarrow> backend \<Rightarrow> effect list \<times> client \<times> detail_view" where
  "MovieDetailPage route_id st be =
     (let movieId = parseInt route_id
      in case useQuery (useMovieDetails movieId) st be of (es1, st1, details) \<Rightarrow>
         case useQuery (useMovieCredits movieId) st1 be of (es2, st2, credits) \<Rightarrow>
         case useQuery (useSimilarMovies movieId (Num 1)) st2 be of (es3, st3, similarMovies) \<Rightarrow>
         case useQuery (useWatchlistStatus movieId movie) st3 be of (es4, st4, watchlistStatus) \<Rightarrow>
           (es1 @ es2 @ es3 @ es4, st4, MovieDetailPage_render details))"

section \<open>The states the program reaches\<close>

text \<open>
  At load the token getter is \<open>null\<close> and the query cache is empty. The program then
  registers token getters, mounts the queries of its hooks and runs its two mutations.
\<close>

definition initial_client :: "string option \<Rightarrow> client" where
  "initial_client v = \<lparr>VITE_API_URL = v, getTokenFunction = None, queries = []\<rparr>"

definition program_queries :: "query_options set" where
  "program_queries =
     range useTrendingMovies \<union> range usePopularMovies \<union> range useTopRatedMovies
     \<union> range useNowPlayingMovies \<union> range useUpcomingMovies \<union> range useMovieDetails
     \<union> range useMovieCredits \<union> range useMovieVideos
     \<union> {useSimilarMovies i pg | i pg. True} \<union> {useMovieRecommendations i pg | i pg. True}
     \<union> {useSearchMovies q pg | q pg. True} \<union> range useDiscoverMovies
     \<union> {useMovieGenres, useWatchlist} \<union> {useWatchlistStatus i c | i c. True}"

inductive reachable :: "client \<Rightarrow> bool" where
  reach_initial: "reachable (initial_client v)"
| reach_token: "reachable st \<Longrightarrow> reachable (setTokenGetter g st)"
| reach_query:
    "reachable st \<Longrightarrow> opts \<in> program_queries \<Longrightarrow> reachable (fst (snd (useQuery opts st be)))"
| reach_add: "reachable st \<Longrightarrow> reachable (snd (mutate useAddToWatchlist item st be))"
| reach_remove: "reachable st \<Longrightarrow> reachable (snd (mutate useRemoveFromWatchlist w st be))"

section \<open>Notions the properties are stated with\<close>

text \<open>The \<open>Authorization\<close> header of a request.\<close>

definition authorization :: "request_config \<Rightarrow> string option" where
  "authorization c = map_of (headers c) ''Authorization''"





text \<open>The cached data of every query, without the flags.\<close>

definition cache_contents :: "client \<Rightarrow> (jsval list \<times> jsval) list" where
  "cache_contents st = map (\<lambda>(k, q). (k, qdata q)) (queries st)"

fun is_console :: "effect \<Rightarrow> bool" where
  "is_console (EConsole l) = True"
| "is_console e = False"


section \<open>Example data\<close>

definition example_movies :: "jsval list" where
  "example_movies =
     [JObject [(''id'', JNumber (Num 550)), (''title'', JString ''Fight Club'')],
      JObject [(''id'', JNumber (Num 13)), (''title'', JString ''Forrest Gump'')]]"

definition example_item :: watchlist_item where
  "example_item =
     \<lparr>tmdbId = Num 550, contentType = movie, title = ''Fight Club'',
      posterPath = Some ''/fc.jpg'', item_note = None\<rparr>"

definition example_saved :: jsval where
  "example_saved =
     JObject [(''id'', JString ''w1''), (''tmdbId'', JNumber (Num 550)),
              (''contentType'', JString ''movie''), (''title'', JString ''Fight Club'')]"

text \<open>A backend that serves the three home page rows and the watchlist.\<close>

definition example_backend :: backend where
  "example_backend config =
     (if method config = GET \<and>
         url config \<in> set [''/movies/trending?timeWindow=week'', ''/movies/popular?page=1'',
                            ''/movies/top-rated?page=1'']
      then Inr \<lparr>status = 200,
                data = JObject [(''success'', JBool True),
                                (''data'', JObject [(''page'', JNumber (Num 1)),
                                                    (''results'', JArray example_movies)])]\<rparr>
      else if method config = GET \<and> url config = ''/watchlist''
      then Inr \<lparr>status = 200,
                data = JObject [(''success'', JBool True), (''data'', JArray [example_saved])]\<rparr>
      else if method config = POST \<and> url config = ''/watchlist''
      then Inr \<lparr>status = 201,
                data = JObject [(''success'', JBool True), (''data'', example_saved)]\<rparr>
      else if method config = DELETE \<and> url config = ''/watchlist/w1''
      then Inr \<lparr>status = 200, data = JObject [(''success'', JBool True)]\<rparr>
      else Inl \<lparr>response = Some \<lparr>status = 404, data = JObject [(''error'', JString ''Not found'')]\<rparr>,
                request = True, message = ''Request failed with status code 404''\<rparr>)"



text \<open>A backend that refuses every request with an error message.\<close>

definition conflict_response :: http_response where
  "conflict_response =
     \<lparr>status = 409, data = JObject [(''success'', JBool False),
                                    (''error'', JString ''Already in watchlist'')]\<rparr>"

definition conflict_backend :: backend where
  "conflict_backend config =
     Inl \<lparr>response = Some conflict_response, request = True,
          message = ''Request failed with status code 409''\<rparr>"

text \<open>A cache that holds a fresh watchlist.\<close>

definition cached_client :: client where
  "cached_client =
     \<lparr>VITE_API_URL = None, getTokenFunction = Some (Inr (Some ''tok'')),
      queries = [([JString ''watchlist''],
                  \<lparr>qdata = JArray [example_saved], isInvalidated = False, fresh = True\<rparr>)]\<rparr>"



section \<open>Facts about one call through the client\<close>

lemma request_interceptor_fulfils:
  "\<exists>logs config. request_interceptor g c0 = (logs, Fulfilled config)"
  by (auto simp: request_interceptor_def split: option.splits sum.splits)

lemma http_requests_append: "http_requests (xs @ ys) = http_requests xs @ http_requests ys"
  by (induction xs rule: http_requests.induct) simp_all

lemma http_requests_console: "http_requests (map EConsole ls) = []"
  by (induction ls) simp_all

lemma api_request_cases:
  assumes "request_interceptor (getTokenFunction st) c0 = (logs, Fulfilled config)"
  shows "api_request st be c0 =
     (case be config of
        Inr r \<Rightarrow> (map EConsole logs @ [ERequest config, EResponse (Inr r)], Fulfilled r)
      | Inl err \<Rightarrow>
          (map EConsole logs @ [ERequest config, EResponse (Inl err)]
             @ map EConsole (fst (response_rejected (AxiosErr err))),
           Rejected (AxiosErr err)))"
  using assms
  by (simp add: api_request_def response_fulfilled_def response_rejected_def split: sum.splits)

lemma api_request_sent:
  assumes "request_interceptor (getTokenFunction st) c0 = (logs, Fulfilled config)"
  shows "http_requests (fst (api_request st be c0)) = [config]"
  using assms
  by (simp add: api_request_cases http_requests_append http_requests_console split: sum.splits)

lemma api_request_result:
  assumes "request_interceptor (getTokenFunction st) c0 = (logs, Fulfilled config)"
  shows "snd (api_request st be c0) =
     (case be config of Inr r \<Rightarrow> Fulfilled r | Inl err \<Rightarrow> Rejected (AxiosErr err))"
  using assms by (simp add: api_request_cases split: sum.splits)

lemma response_rejected_one_line: "length (fst (response_rejected e)) = 1"
  by (simp add: response_rejected_def split: option.splits)


section \<open>Facts about the query functions\<close>

lemma request_interceptor_keeps:
  assumes "request_interceptor g c0 = (logs, Fulfilled config)"
  shows "method config = method c0 \<and> url config = url c0 \<and> payload config = payload c0
         \<and> baseURL config = baseURL c0 \<and> timeout config = timeout c0"
  using assms
  by (auto simp: request_interceptor_def split: option.splits sum.splits if_splits)

lemma api_get_one:
  "\<exists>config. http_requests (fst (api_get st be u)) = [config]
      \<and> method config = GET \<and> url config = u \<and> payload config = None
      \<and> snd (api_get st be u)
          = (case be config of Inr r \<Rightarrow> Fulfilled r | Inl err \<Rightarrow> Rejected (AxiosErr err))"
proof -
  let ?c0 = "api_defaults st GET u None"
  obtain logs config where ri: "request_interceptor (getTokenFunction st) ?c0 = (logs, Fulfilled config)"
    using request_interceptor_fulfils by blast
  from request_interceptor_keeps [OF ri]
  have "method config = GET \<and> url config = u \<and> payload config = None"
    by (simp add: api_defaults_def)
  with api_request_sent [OF ri, of be] api_request_result [OF ri, of be]
  show ?thesis by (simp add: api_get_def)
qed

lemma get_data_data_effects: "fst (get_data_data u st be) = fst (api_get st be u)"
  by (simp add: get_data_data_def split: prod.splits promise.splits)





lemma api_defaults_cache: "api_defaults (st\<lparr>queries := cache\<rparr>) m u d = api_defaults st m u d"
  by (simp add: api_defaults_def)



section \<open>Facts about the mutations and the cache\<close>

lemma list_all_console: "list_all is_console (map EConsole logs)"
  by (induction logs) simp_all

lemma response_rejected_log:
  "map EConsole (fst (response_rejected e)) = [EConsole (hd (fst (response_rejected e)))]"
  using response_rejected_one_line [of e]
  by (cases "fst (response_rejected e)") simp_all

lemma mutation_cases:
  assumes mf: "mutationFn opts v st be =
           (case api_request st be c0 of
              (es, Rejected e) \<Rightarrow> (es, Rejected e)
            | (es, Fulfilled r) \<Rightarrow> (es, Fulfilled (data r)))"
    and ok: "onSuccess opts st =
           ([EInvalidate [JString ''watchlist''], EToastSuccess ok_text],
            invalidateQueries [JString ''watchlist''] st)"
    and fail: "\<And>e. onError opts e =
           [EToastError (js_or (response_error_field e) (JString fail_text))]"
    and ri: "request_interceptor (getTokenFunction st) c0 = (logs, Fulfilled config)"
  shows "mutate opts v st be =
     (case be config of
        Inr r \<Rightarrow>
          (map EConsole logs @ [ERequest config, EResponse (Inr r),
             EInvalidate [JString ''watchlist''], EToastSuccess ok_text],
           invalidateQueries [JString ''watchlist''] st)
      | Inl err \<Rightarrow>
          (map EConsole logs @ [ERequest config, EResponse (Inl err),
             EConsole (hd (fst (response_rejected (AxiosErr err)))),
             EToastError (js_or (response_error_field (AxiosErr err)) (JString fail_text))],
           st))"
    and "snd (mutationFn opts v st be) =
     (case be config of Inr r \<Rightarrow> Fulfilled (data r) | Inl err \<Rightarrow> Rejected (AxiosErr err))"
    and "http_requests (fst (mutationFn opts v st be)) = [config]"
  by (simp_all add: mutate_def mf ok fail api_request_cases [OF ri] response_rejected_log
      http_requests_append http_requests_console split: sum.splits)

lemma add_mf:
  "mutationFn useAddToWatchlist item st be =
           (case api_request st be (api_defaults st POST ''/watchlist'' (Some item)) of
              (es, Rejected e) \<Rightarrow> (es, Rejected e)
            | (es, Fulfilled r) \<Rightarrow> (es, Fulfilled (data r)))"
  by (simp add: useAddToWatchlist_def api_post_def)

lemma add_ok:
  "onSuccess useAddToWatchlist st =
           ([EInvalidate [JString ''watchlist''], EToastSuccess ''Added to watchlist!''],
            invalidateQueries [JString ''watchlist''] st)"
  by (simp add: useAddToWatchlist_def)

lemma add_fail:
  "onError useAddToWatchlist e =
     [EToastError (js_or (response_error_field e) (JString ''Failed to add to watchlist''))]"
  by (simp add: useAddToWatchlist_def)

lemma remove_mf:
  "mutationFn useRemoveFromWatchlist w st be =
           (case api_request st be (api_defaults st DELETE (''/watchlist/'' @ w) None) of
              (es, Rejected e) \<Rightarrow> (es, Rejected e)
            | (es, Fulfilled r) \<Rightarrow> (es, Fulfilled (data r)))"
  by (simp add: useRemoveFromWatchlist_def api_delete_def)

lemma remove_ok:
  "onSuccess useRemoveFromWatchlist st =
           ([EInvalidate [JString ''watchlist''], EToastSuccess ''Removed from watchlist''],
            invalidateQueries [JString ''watchlist''] st)"
  by (simp add: useRemoveFromWatchlist_def)

lemma remove_fail:
  "onError useRemoveFromWatchlist e =
     [EToastError (js_or (response_error_field e) (JString ''Failed to remove from watchlist''))]"
  by (simp add: useRemoveFromWatchlist_def)

lemmas add_cases = mutation_cases [OF add_mf add_ok add_fail]
lemmas remove_cases = mutation_cases [OF remove_mf remove_ok remove_fail]

lemma map_of_invalidate:
  "map_of (queries (invalidateQueries k st)) key =
     map_option (\<lambda>q. if take (length k) key = k then q\<lparr>isInvalidated := True\<rparr> else q)
       (map_of (queries st) key)"
proof -
  have "map_of (map (\<lambda>(key, q). if take (length k) key = k
                        then (key, q\<lparr>isInvalidated := True\<rparr>) else (key, q)) qs) key =
     map_option (\<lambda>q. if take (length k) key = k then q\<lparr>isInvalidated := True\<rparr> else q)
       (map_of qs key)" for qs
    by (induction qs) auto
  then show ?thesis by (simp add: invalidateQueries_def)
qed

lemma needs_fetch_invalidated:
  "needs_fetch (invalidateQueries [JString ''watchlist''] st) [JString ''watchlist'']"
  by (simp add: needs_fetch_def map_of_invalidate split: option.splits)

lemma cache_contents_invalidate: "cache_contents (invalidateQueries k st) = cache_contents st"
  by (simp add: cache_contents_def invalidateQueries_def split_def comp_def)

lemma run_queryFn_requests:
  "\<exists>config reqs. http_requests (fst (run_queryFn n (get_data_data u) st be)) = config # reqs
      \<and> method config = GET \<and> url config = u"
proof -
  obtain config where c: "http_requests (fst (get_data_data u st be)) = [config]"
      "method config = GET" "url config = u"
    using api_get_one [of st be u] by (auto simp: get_data_data_effects)
  show ?thesis
  proof (cases n)
    case 0
    with c show ?thesis by simp
  next
    case (Suc k)
    with c show ?thesis
      by (cases "get_data_data u st be")
         (auto simp: http_requests_append split: promise.splits prod.splits)
  qed
qed

lemma useQuery_watchlist_refetch:
  assumes "needs_fetch st [JString ''watchlist'']"
  shows "\<exists>config reqs. http_requests (fst (useQuery useWatchlist st be)) = config # reqs
      \<and> method config = GET \<and> url config = ''/watchlist''"
proof -
  obtain config reqs where
    "http_requests (fst (run_queryFn default_retry (get_data_data ''/watchlist'') st be)) = config # reqs"
    "method config = GET" "url config = ''/watchlist''"
    using run_queryFn_requests by blast
  with assms show ?thesis
    by (auto simp: useQuery_def useWatchlist_def split: prod.splits promise.splits)
qed

text \<open>The definitions that evaluate one call through the client.\<close>

lemmas run_defs = api_post_def api_delete_def api_get_def api_request_def request_interceptor_def
  api_defaults_def response_fulfilled_def response_rejected_def


lemma mutation_requests:
  assumes mf: "mutationFn opts v st be =
           (case api_request st be c0 of
              (es, Rejected e) \<Rightarrow> (es, Rejected e)
            | (es, Fulfilled r) \<Rightarrow> (es, Fulfilled (data r)))"
    and ok: "onSuccess opts st =
           ([EInvalidate [JString ''watchlist''], EToastSuccess ok_text],
            invalidateQueries [JString ''watchlist''] st)"
    and fail: "\<And>e. onError opts e =
           [EToastError (js_or (response_error_field e) (JString fail_text))]"
    and ri: "request_interceptor (getTokenFunction st) c0 = (logs, Fulfilled config)"
  shows "http_requests (fst (mutate opts v st be)) = [config]"
    and "cache_contents (snd (mutate opts v st be)) = cache_contents st"
    and "VITE_API_URL (snd (mutate opts v st be)) = VITE_API_URL st"
    and "getTokenFunction (snd (mutate opts v st be)) = getTokenFunction st"
proof -
  note run = mutation_cases(1) [OF mf ok fail ri]
  show "http_requests (fst (mutate opts v st be)) = [config]"
    by (simp add: run http_requests_append http_requests_console split: sum.splits)
  show "cache_contents (snd (mutate opts v st be)) = cache_contents st"
    by (simp add: run cache_contents_invalidate split: sum.splits)
  show "VITE_API_URL (snd (mutate opts v st be)) = VITE_API_URL st"
    by (simp add: run invalidateQueries_def split: sum.splits)
  show "getTokenFunction (snd (mutate opts v st be)) = getTokenFunction st"
    by (simp add: run invalidateQueries_def split: sum.splits)
qed

lemma useQuery_cache_only_key:
  assumes "k \<noteq> queryKey opts"
  shows "map_of (queries (fst (snd (useQuery opts st be)))) k = map_of (queries st) k"
  using assms
  by (auto simp: useQuery_def update_conv' split: prod.splits promise.splits)

section \<open>Facts about mounted queries\<close>

lemmas hook_defs = useTrendingMovies_def usePopularMovies_def useTopRatedMovies_def
  useNowPlayingMovies_def useUpcomingMovies_def useMovieDetails_def useMovieCredits_def
  useMovieVideos_def useSimilarMovies_def useMovieRecommendations_def useSearchMovies_def
  useDiscoverMovies_def useMovieGenres_def useWatchlist_def useWatchlistStatus_def



lemma useQuery_disabled:
  assumes "\<not> enabled opts"
  shows "useQuery opts st be = ([], st, (cached_data st (queryKey opts), False))"
  using assms by (simp add: useQuery_def)

lemma falsy_num: "\<not> truthy_num n \<longleftrightarrow> n = NaN \<or> n = Num 0"
  by (cases n) auto

lemma enabled_key_not_falsy_movie:
  assumes "opts \<in> program_queries" and "enabled opts" and "\<not> truthy_num n"
  shows "queryKey opts \<noteq> [JString ''movie'', JNumber n]"
  using assms by (auto simp: program_queries_def hook_defs)

lemma mutate_state:
  "snd (mutate useAddToWatchlist item st be) = st
     \<or> snd (mutate useAddToWatchlist item st be) = invalidateQueries [JString ''watchlist''] st"
  "snd (mutate useRemoveFromWatchlist w st be) = st
     \<or> snd (mutate useRemoveFromWatchlist w st be) = invalidateQueries [JString ''watchlist''] st"
proof -
  obtain logs config where
    ri: "request_interceptor (getTokenFunction st)
           (api_defaults st POST ''/watchlist'' (Some item)) = (logs, Fulfilled config)"
    using request_interceptor_fulfils by blast
  show "snd (mutate useAddToWatchlist item st be) = st
     \<or> snd (mutate useAddToWatchlist item st be) = invalidateQueries [JString ''watchlist''] st"
    by (simp add: add_cases(1) [OF ri] split: sum.splits)
  obtain logs' config' where
    ri': "request_interceptor (getTokenFunction st)
           (api_defaults st DELETE (''/watchlist/'' @ w) None) = (logs', Fulfilled config')"
    using request_interceptor_fulfils by blast
  show "snd (mutate useRemoveFromWatchlist w st be) = st
     \<or> snd (mutate useRemoveFromWatchlist w st be) = invalidateQueries [JString ''watchlist''] st"
    by (simp add: remove_cases(1) [OF ri'] split: sum.splits)
qed

lemma reachable_no_falsy_movie:
  assumes "reachable st" and "\<not> truthy_num n"
  shows "map_of (queries st) [JString ''movie'', JNumber n] = None"
  using assms
proof (induction rule: reachable.induct)
  case (reach_initial v)
  then show ?case by (simp add: initial_client_def)
next
  case (reach_token st g)
  then show ?case by (simp add: setTokenGetter_def)
next
  case (reach_query st opts be)
  show ?case
  proof (cases "enabled opts")
    case True
    from enabled_key_not_falsy_movie [OF reach_query.hyps(2) True reach_query.prems]
    have "[JString ''movie'', JNumber n] \<noteq> queryKey opts" by simp
    then show ?thesis
      using reach_query.IH [OF reach_query.prems] by (simp add: useQuery_cache_only_key)
  next
    case False
    then show ?thesis
      using reach_query.IH [OF reach_query.prems] by (simp add: useQuery_disabled)
  qed
next
  case (reach_add st item be)
  then show ?case
    using mutate_state(1) [of item st be] by (auto simp: map_of_invalidate)
next
  case (reach_remove st w be)
  then show ?case
    using mutate_state(2) [of w st be] by (auto simp: map_of_invalidate)
qed

section \<open>The Authorization header\<close>

text \<open>
  Claim C1, as the code has it. For every request made through the client (\<open>get\<close>,
  \<open>post\<close> and \<open>delete\<close> all start from \<open>api_defaults\<close>): when a token getter is
  registered and returns a token that is neither \<open>null\<close> nor the empty string, the one
  request sent carries the header \<open>Authorization: Bearer <token>\<close>; when no getter is
  registered, or the getter returns \<open>null\<close> or the empty string, the one request sent
  carries no Authorization header.
\<close>

theorem authorization_header_of_token:
  "(getTokenFunction st = Some (Inr (Some token)) \<and> token \<noteq> [] \<longrightarrow>
      map authorization (http_requests (fst (api_request st be (api_defaults st m u d))))
        = [Some (''Bearer '' @ token)])
   \<and> (getTokenFunction st = None \<or> getTokenFunction st = Some (Inr None)
        \<or> getTokenFunction st = Some (Inr (Some [])) \<longrightarrow>
      map authorization (http_requests (fst (api_request st be (api_defaults st m u d))))
        = [None])"
proof (intro conjI impI)
  assume a: "getTokenFunction st = Some (Inr (Some token)) \<and> token \<noteq> []"
  let ?c0 = "api_defaults st m u d"
  have "request_interceptor (getTokenFunction st) ?c0 =
          ([], Fulfilled (?c0\<lparr>headers :=
              AList.update ''Authorization'' (''Bearer '' @ token) (headers ?c0)\<rparr>))"
    using a by (simp add: request_interceptor_def)
  from api_request_sent [OF this]
  show "map authorization (http_requests (fst (api_request st be ?c0)))
          = [Some (''Bearer '' @ token)]"
    by (simp add: authorization_def update_conv')
next
  assume a: "getTokenFunction st = None \<or> getTokenFunction st = Some (Inr None)
        \<or> getTokenFunction st = Some (Inr (Some []))"
  let ?c0 = "api_defaults st m u d"
  have "request_interceptor (getTokenFunction st) ?c0 = ([], Fulfilled ?c0)"
    using a by (auto simp: request_interceptor_def)
  from api_request_sent [OF this]
  show "map authorization (http_requests (fst (api_request st be ?c0))) = [None]"
    by (simp add: authorization_def api_defaults_def)
qed

text \<open>The theorem at a client with the token \<open>tok\<close> and at the client as it is at load.\<close>

theorem authorization_header_of_token_witness:
  "map authorization (http_requests (fst (api_request cached_client example_backend
       (api_defaults cached_client GET ''/watchlist'' None)))) = [Some ''Bearer tok'']
   \<and> map authorization (http_requests (fst (api_request (initial_client None) example_backend
       (api_defaults (initial_client None) GET ''/watchlist'' None)))) = [None]"
  using authorization_header_of_token [of cached_client "''tok''" example_backend GET "''/watchlist''" None]
    authorization_header_of_token [of "initial_client None" "''tok''" example_backend GET "''/watchlist''" None]
  by (simp add: cached_client_def initial_client_def)

text \<open>
  Claim C1 as stated fails for the empty string as the token, which is not \<open>null\<close>:
  the guard \<open>if (token)\<close> is false for it, and the request carries no Authorization
  header where the claim says \<open>Bearer\<close> followed by the token.
\<close>

theorem empty_token_counterexample:
  "map authorization
     (http_requests (fst (api_get (setTokenGetter (Inr (Some '''')) (initial_client None))
        example_backend ''/watchlist''))) = [None]
   \<and> [None] \<noteq> [Some (''Bearer '' @ '''')]"
  by (simp add: api_get_def api_request_def request_interceptor_def setTokenGetter_def
      initial_client_def api_defaults_def example_backend_def authorization_def
      response_fulfilled_def)

section \<open>A token getter that throws\<close>



section \<open>The response interceptor\<close>



section \<open>The query functions\<close>



section \<open>A mutation that succeeds\<close>

text \<open>
  Claim C2. When the server request of an add-to-watchlist or remove-from-watchlist
  mutation succeeds, the effects of the mutation are, in this order: log lines of the
  request interceptor (if any), the request, the response, the invalidation of the key
  \<open>["watchlist"]\<close>, the success toast. The invalidation comes after the response and
  nothing is invalidated before it. Afterwards the cached watchlist query is marked
  invalidated, it needs a fetch, and a mounted watchlist query fetches again with a GET
  to \<open>/watchlist\<close>.
\<close>

theorem mutation_success_invalidates_watchlist:
  "(snd (mutationFn useAddToWatchlist item st be) = Fulfilled d \<longrightarrow>
      (\<exists>pre config r.
          list_all is_console pre \<and> be config = Inr r \<and> d = data r
          \<and> mutate useAddToWatchlist item st be =
              (pre @ [ERequest config, EResponse (Inr r),
                      EInvalidate [JString ''watchlist''], EToastSuccess ''Added to watchlist!''],
               invalidateQueries [JString ''watchlist''] st))
      \<and> needs_fetch (snd (mutate useAddToWatchlist item st be)) (queryKey useWatchlist)
      \<and> (\<forall>q. map_of (queries st) (queryKey useWatchlist) = Some q \<longrightarrow>
            map_of (queries (snd (mutate useAddToWatchlist item st be))) (queryKey useWatchlist)
              = Some (q\<lparr>isInvalidated := True\<rparr>))
      \<and> (\<exists>config reqs.
            http_requests (fst (useQuery useWatchlist
                (snd (mutate useAddToWatchlist item st be)) be')) = config # reqs
            \<and> method config = GET \<and> url config = ''/watchlist''))
   \<and> (snd (mutationFn useRemoveFromWatchlist w st be) = Fulfilled d \<longrightarrow>
      (\<exists>pre config r.
          list_all is_console pre \<and> be config = Inr r \<and> d = data r
          \<and> mutate useRemoveFromWatchlist w st be =
              (pre @ [ERequest config, EResponse (Inr r),
                      EInvalidate [JString ''watchlist''], EToastSuccess ''Removed from watchlist''],
               invalidateQueries [JString ''watchlist''] st))
      \<and> needs_fetch (snd (mutate useRemoveFromWatchlist w st be)) (queryKey useWatchlist)
      \<and> (\<forall>q. map_of (queries st) (queryKey useWatchlist) = Some q \<longrightarrow>
            map_of (queries (snd (mutate useRemoveFromWatchlist w st be))) (queryKey useWatchlist)
              = Some (q\<lparr>isInvalidated := True\<rparr>))
      \<and> (\<exists>config reqs.
            http_requests (fst (useQuery useWatchlist
                (snd (mutate useRemoveFromWatchlist w st be)) be')) = config # reqs
            \<and> method config = GET \<and> url config = ''/watchlist''))"
proof -
  have key: "queryKey useWatchlist = [JString ''watchlist'']"
    by (simp add: useWatchlist_def)
  have main: "(\<exists>pre config r.
          list_all is_console pre \<and> be config = Inr r \<and> d = data r
          \<and> mutate opts v st be =
              (pre @ [ERequest config, EResponse (Inr r),
                      EInvalidate [JString ''watchlist''], EToastSuccess ok_text],
               invalidateQueries [JString ''watchlist''] st))
      \<and> needs_fetch (snd (mutate opts v st be)) (queryKey useWatchlist)
      \<and> (\<forall>q. map_of (queries st) (queryKey useWatchlist) = Some q \<longrightarrow>
            map_of (queries (snd (mutate opts v st be))) (queryKey useWatchlist)
              = Some (q\<lparr>isInvalidated := True\<rparr>))
      \<and> (\<exists>config reqs.
            http_requests (fst (useQuery useWatchlist (snd (mutate opts v st be)) be'))
              = config # reqs
            \<and> method config = GET \<and> url config = ''/watchlist'')"
    if mf: "mutationFn opts v st be =
           (case api_request st be c0 of
              (es, Rejected e) \<Rightarrow> (es, Rejected e)
            | (es, Fulfilled r) \<Rightarrow> (es, Fulfilled (data r)))"
    and ok: "onSuccess opts st =
           ([EInvalidate [JString ''watchlist''], EToastSuccess ok_text],
            invalidateQueries [JString ''watchlist''] st)"
    and fail: "\<And>e. onError opts e =
           [EToastError (js_or (response_error_field e) (JString fail_text))]"
    and fulfilled: "snd (mutationFn opts v st be) = Fulfilled d"
    for opts :: "'v mutation_options" and v c0 ok_text fail_text
  proof -
    obtain logs config where
      ri: "request_interceptor (getTokenFunction st) c0 = (logs, Fulfilled config)"
      using request_interceptor_fulfils by blast
    note mc = mutation_cases [OF mf ok fail ri]
    from fulfilled mc(2) obtain r where r: "be config = Inr r" "d = data r"
      by (cases "be config") auto
    have run: "mutate opts v st be =
        (map EConsole logs @ [ERequest config, EResponse (Inr r),
           EInvalidate [JString ''watchlist''], EToastSuccess ok_text],
         invalidateQueries [JString ''watchlist''] st)"
      using mc(1) r by simp
    have st': "snd (mutate opts v st be) = invalidateQueries [JString ''watchlist''] st"
      by (simp add: run)
    show ?thesis
    proof (intro conjI allI impI)
      show "\<exists>pre config r.
          list_all is_console pre \<and> be config = Inr r \<and> d = data r
          \<and> mutate opts v st be =
              (pre @ [ERequest config, EResponse (Inr r),
                      EInvalidate [JString ''watchlist''], EToastSuccess ok_text],
               invalidateQueries [JString ''watchlist''] st)"
        using run r list_all_console by blast
      show "needs_fetch (snd (mutate opts v st be)) (queryKey useWatchlist)"
        by (simp add: st' key needs_fetch_invalidated)
      show "map_of (queries (snd (mutate opts v st be))) (queryKey useWatchlist)
              = Some (q\<lparr>isInvalidated := True\<rparr>)"
        if "map_of (queries st) (queryKey useWatchlist) = Some q" for q
        using that by (simp add: st' key map_of_invalidate)
      show "\<exists>config reqs.
            http_requests (fst (useQuery useWatchlist (snd (mutate opts v st be)) be'))
              = config # reqs
            \<and> method config = GET \<and> url config = ''/watchlist''"
        unfolding st' by (rule useQuery_watchlist_refetch [OF needs_fetch_invalidated])
    qed
  qed
  show ?thesis
    using main [OF add_mf add_ok add_fail] main [OF remove_mf remove_ok remove_fail]
    by blast
qed


text \<open>The theorem at a client that holds a fresh watchlist, for both mutations.\<close>

theorem mutation_success_invalidates_watchlist_witness:
  "map_of (queries (snd (mutate useAddToWatchlist example_item cached_client example_backend)))
       [JString ''watchlist'']
     = Some \<lparr>qdata = JArray [example_saved], isInvalidated = True, fresh = True\<rparr>
   \<and> map_of (queries (snd (mutate useRemoveFromWatchlist ''w1'' cached_client example_backend)))
       [JString ''watchlist'']
     = Some \<lparr>qdata = JArray [example_saved], isInvalidated = True, fresh = True\<rparr>"
proof -
  have key: "queryKey useWatchlist = [JString ''watchlist'']"
    by (simp add: useWatchlist_def)
  have cached: "map_of (queries cached_client) (queryKey useWatchlist)
      = Some \<lparr>qdata = JArray [example_saved], isInvalidated = False, fresh = True\<rparr>"
    by (simp add: cached_client_def key)
  have added: "snd (mutationFn useAddToWatchlist example_item cached_client example_backend)
      = Fulfilled (JObject [(''success'', JBool True), (''data'', example_saved)])"
    by (simp add: useAddToWatchlist_def run_defs cached_client_def example_backend_def)
  have removed: "snd (mutationFn useRemoveFromWatchlist ''w1'' cached_client example_backend)
      = Fulfilled (JObject [(''success'', JBool True)])"
    by (simp add: useRemoveFromWatchlist_def run_defs cached_client_def example_backend_def)
  from added cached mutation_success_invalidates_watchlist
    [where item = example_item and st = cached_client and be = example_backend
       and d = "JObject [(''success'', JBool True), (''data'', example_saved)]"]
  have 1: "map_of (queries (snd (mutate useAddToWatchlist example_item cached_client example_backend)))
       (queryKey useWatchlist)
     = Some (\<lparr>qdata = JArray [example_saved], isInvalidated = False, fresh = True\<rparr>
              \<lparr>isInvalidated := True\<rparr>)"
    by blast
  from removed cached mutation_success_invalidates_watchlist
    [where w = "''w1''" and st = cached_client and be = example_backend
       and d = "JObject [(''success'', JBool True)]"]
  have 2: "map_of (queries (snd (mutate useRemoveFromWatchlist ''w1'' cached_client example_backend)))
       (queryKey useWatchlist)
     = Some (\<lparr>qdata = JArray [example_saved], isInvalidated = False, fresh = True\<rparr>
              \<lparr>isInvalidated := True\<rparr>)"
    by blast
  from 1 2 show ?thesis by (simp add: key)
qed

section \<open>A mutation that fails\<close>




section \<open>The request of the add mutation\<close>

text \<open>
  Claim C7. The add-to-watchlist mutation does no deduplication or reconciliation on the
  client: for every item, the mutation sends exactly one request, a POST to \<open>/watchlist\<close>
  whose payload is exactly that item; and two runs with the same item from two states
  that differ only in the query cache (whatever the cached watchlist holds) send the
  same request, whatever the backend answers.
\<close>

theorem add_request_ignores_cache:
  "(\<exists>config. http_requests (fst (mutationFn useAddToWatchlist item st be)) = [config]
       \<and> http_requests (fst (mutate useAddToWatchlist item st be)) = [config]
       \<and> method config = POST \<and> url config = ''/watchlist'' \<and> payload config = Some item)
   \<and> http_requests (fst (mutate useAddToWatchlist item (st\<lparr>queries := cache1\<rparr>) be1))
       = http_requests (fst (mutate useAddToWatchlist item (st\<lparr>queries := cache2\<rparr>) be2))"
proof -
  let ?c0 = "\<lambda>st. api_defaults st POST ''/watchlist'' (Some item)"
  obtain logs config where
    ri: "request_interceptor (getTokenFunction st) (?c0 st) = (logs, Fulfilled config)"
    using request_interceptor_fulfils by blast
  have ri': "request_interceptor (getTokenFunction (st\<lparr>queries := c\<rparr>)) (?c0 (st\<lparr>queries := c\<rparr>))
      = (logs, Fulfilled config)" for c
    using ri by (simp add: api_defaults_cache)
  have keeps: "method config = POST \<and> url config = ''/watchlist'' \<and> payload config = Some item"
    using request_interceptor_keeps [OF ri] by (simp add: api_defaults_def)
  have "http_requests (fst (mutationFn useAddToWatchlist item st be)) = [config]"
    by (rule add_cases(3) [OF ri])
  moreover have "http_requests (fst (mutate useAddToWatchlist item st be)) = [config]"
    by (rule mutation_requests(1) [OF add_mf add_ok add_fail ri])
  moreover have "http_requests (fst (mutate useAddToWatchlist item (st\<lparr>queries := c\<rparr>) b)) = [config]"
    for c b
    by (rule mutation_requests(1) [OF add_mf add_ok add_fail ri'])
  ultimately show ?thesis using keeps by simp
qed

text \<open>The theorem at the example item, with and without a cached watchlist.\<close>

theorem add_request_ignores_cache_witness:
  "map payload (http_requests (fst (mutate useAddToWatchlist example_item cached_client
       conflict_backend))) = [Some example_item]
   \<and> http_requests (fst (mutate useAddToWatchlist example_item cached_client conflict_backend))
     = http_requests (fst (mutate useAddToWatchlist example_item
         (cached_client\<lparr>queries := []\<rparr>) example_backend))"
proof -
  from add_request_ignores_cache
    [where item = example_item and st = cached_client and be = conflict_backend
       and ?cache1.0 = "[]" and ?be1.0 = conflict_backend and ?cache2.0 = "[]"
       and ?be2.0 = example_backend]
  obtain config where
    "http_requests (fst (mutate useAddToWatchlist example_item cached_client conflict_backend))
       = [config]"
    and "payload config = Some example_item"
    by blast
  then have "map payload (http_requests (fst (mutate useAddToWatchlist example_item cached_client
       conflict_backend))) = [Some example_item]"
    by simp
  moreover from add_request_ignores_cache
    [where item = example_item and st = cached_client and ?cache1.0 = "queries cached_client"
       and ?be1.0 = conflict_backend and ?cache2.0 = "[]" and ?be2.0 = example_backend]
  have "http_requests (fst (mutate useAddToWatchlist example_item cached_client conflict_backend))
     = http_requests (fst (mutate useAddToWatchlist example_item
         (cached_client\<lparr>queries := []\<rparr>) example_backend))"
    by simp
  ultimately show ?thesis by simp
qed

section \<open>The watchlist lives on the backend\<close>



section \<open>The rows of the home page\<close>




section \<open>Queries on an id that is 0 or NaN\<close>

text \<open>
  Claim C10. For every query that depends on an id (movie details, credits, videos,
  similar, recommendations, watchlist status), if the id is \<open>0\<close> or \<open>NaN\<close> the query is
  disabled and mounting it sends no request. For a route parameter that \<open>parseInt\<close>
  turns into \<open>0\<close> or \<open>NaN\<close>, the movie page, in every state the program reaches, sends no
  request at all and renders \<open>Movie Not Found\<close>, on its first render and once settled.
\<close>

theorem falsy_id_disables_queries:
  "(movieId = NaN \<or> movieId = Num 0 \<longrightarrow>
      \<not> enabled (useMovieDetails movieId) \<and> \<not> enabled (useMovieCredits movieId)
      \<and> \<not> enabled (useMovieVideos movieId) \<and> \<not> enabled (useSimilarMovies movieId pg)
      \<and> \<not> enabled (useMovieRecommendations movieId pg)
      \<and> \<not> enabled (useWatchlistStatus movieId ctype)
      \<and> fst (useQuery (useMovieDetails movieId) st be) = []
      \<and> fst (useQuery (useMovieCredits movieId) st be) = []
      \<and> fst (useQuery (useMovieVideos movieId) st be) = []
      \<and> fst (useQuery (useSimilarMovies movieId pg) st be) = []
      \<and> fst (useQuery (useMovieRecommendations movieId pg) st be) = []
      \<and> fst (useQuery (useWatchlistStatus movieId ctype) st be) = [])
   \<and> (reachable st \<and> (parseInt route_id = NaN \<or> parseInt route_id = Num 0) \<longrightarrow>
        MovieDetailPage route_id st be = ([], st, MovieNotFound)
        \<and> MovieDetailPage_first route_id st = MovieNotFound)"
proof (intro conjI impI)
  assume "reachable st \<and> (parseInt route_id = NaN \<or> parseInt route_id = Num 0)"
  then have r: "reachable st" and f: "\<not> truthy_num (parseInt route_id)"
    by (auto simp: falsy_num)
  have none: "cached_data st [JString ''movie'', JNumber (parseInt route_id)] = JUndefined"
    by (simp add: cached_data_def reachable_no_falsy_movie [OF r f])
  have off: "\<not> enabled (useMovieDetails (parseInt route_id))"
    "\<not> enabled (useMovieCredits (parseInt route_id))"
    "\<not> enabled (useSimilarMovies (parseInt route_id) (Num 1))"
    "\<not> enabled (useWatchlistStatus (parseInt route_id) movie)"
    using f by (simp_all add: hook_defs)
  have key: "queryKey (useMovieDetails (parseInt route_id))
      = [JString ''movie'', JNumber (parseInt route_id)]"
    by (simp add: hook_defs)
  show "MovieDetailPage route_id st be = ([], st, MovieNotFound)"
    by (simp add: MovieDetailPage_def Let_def useQuery_disabled off key none
        MovieDetailPage_render_def)
  show "MovieDetailPage_first route_id st = MovieNotFound"
    using off(1)
    by (simp add: MovieDetailPage_first_def Let_def useQuery_first_def key none
        MovieDetailPage_render_def)
qed (auto simp: hook_defs useQuery_def)

text \<open>The theorem at the routes \<open>/movie/abc\<close> and \<open>/movie/0\<close> of a fresh session.\<close>

theorem falsy_id_disables_queries_witness:
  "MovieDetailPage ''abc'' (initial_client None) example_backend
     = ([], initial_client None, MovieNotFound)
   \<and> MovieDetailPage ''0'' (initial_client None) example_backend
     = ([], initial_client None, MovieNotFound)
   \<and> MovieDetailPage_first ''abc'' (initial_client None) = MovieNotFound
   \<and> fst (useQuery (useWatchlistStatus NaN movie) cached_client example_backend) = []"
proof -
  have r: "reachable (initial_client None)"
    by (rule reach_initial)
  have nan: "parseInt ''abc'' = NaN"
    by (simp add: parseInt_def is_digit_def StrWhiteSpaceChar_def)
  have zero: "parseInt ''0'' = Num 0"
    by (simp add: parseInt_def is_digit_def StrWhiteSpaceChar_def)
  from r nan falsy_id_disables_queries
    [where st = "initial_client None" and route_id = "''abc''" and be = example_backend]
  have 1: "MovieDetailPage ''abc'' (initial_client None) example_backend
     = ([], initial_client None, MovieNotFound)
     \<and> MovieDetailPage_first ''abc'' (initial_client None) = MovieNotFound"
    by blast
  from r zero falsy_id_disables_queries
    [where st = "initial_client None" and route_id = "''0''" and be = example_backend]
  have 2: "MovieDetailPage ''0'' (initial_client None) example_backend
     = ([], initial_client None, MovieNotFound)"
    by blast
  from falsy_id_disables_queries
    [where movieId = NaN and ctype = movie and st = cached_client and be = example_backend]
  have 3: "fst (useQuery (useWatchlistStatus NaN movie) cached_client example_backend) = []"
    by blast
  from 1 2 3 show ?thesis by simp
qed

end
